theory Spec2Isabelle
  imports Complex_Main "HOL-Library.Word"
begin

section \<open>Data model\<close>

text \<open>
  Go's \<open>float32\<close> and \<open>float64\<close> values are modelled as exact rationals and Go's
  \<open>int\<close> as a mathematical integer: the model computes what the code computes
  wherever no floating point operation rounds, overflows or divides by zero and no
  \<open>int\<close> operation wraps around. \<open>uint32\<close> is a 32-bit word.
\<close>

type_synonym float = rat

text \<open>\<open>image.Rectangle\<close>: the fields \<open>Min.X\<close>, \<open>Min.Y\<close>, \<open>Max.X\<close>, \<open>Max.Y\<close>.\<close>

record rectangle =
  MinX :: int
  MinY :: int
  MaxX :: int
  MaxY :: int

definition Dx :: "rectangle \<Rightarrow> int" where
  "Dx r = MaxX r - MinX r"

definition Dy :: "rectangle \<Rightarrow> int" where
  "Dy r = MaxY r - MinY r"

text \<open>\<open>gfx.Vec3\<close> and \<open>gfx.TexCoord\<close>.\<close>

type_synonym vec3 = "float \<times> float \<times> float"
type_synonym texcoord = "float \<times> float"

text \<open>
  \<open>gfx.Mesh\<close>: the vertex slice and the slice of texture coordinate sets, each set
  being the slice of its coordinates.
\<close>

record mesh =
  Vertices :: "vec3 list"
  TexCoords :: "texcoord list list"

definition NewMesh :: mesh where
  "NewMesh = \<lparr>Vertices = [], TexCoords = []\<rparr>"

section \<open>The quad emitter: \<open>appendCard\<close>\<close>

text \<open>The closure \<open>addv\<close>: the card lies in the plane of constant \<open>depth\<close>.\<close>

definition addv :: "float \<Rightarrow> mesh \<Rightarrow> float \<Rightarrow> float \<Rightarrow> mesh" where
  "addv depth m x y = m\<lparr>Vertices := Vertices m @ [(x, depth, y)]\<rparr>"

text \<open>
  The closure \<open>addt\<close>: the first coordinate set is created when the mesh has none,
  then the coordinate is appended to set 0.
\<close>

definition addt :: "mesh \<Rightarrow> float \<Rightarrow> float \<Rightarrow> mesh" where
  "addt m u v =
     (case TexCoords m of
        [] \<Rightarrow> m\<lparr>TexCoords := [[(u, v)]]\<rparr>
      | s # rest \<Rightarrow> m\<lparr>TexCoords := (s @ [(u, v)]) # rest\<rparr>)"

text \<open>
  Lines 115 to 122 of \<open>appendCard\<close>: the corners \<open>(u0, u1, v0, v1)\<close> of the
  texture rectangle. Both \<open>halfTexUnitX\<close> and \<open>halfTexUnitY\<close> are \<open>1.0 / w\<close>.
\<close>

definition cardUV :: "rectangle \<Rightarrow> rectangle \<Rightarrow> float \<times> float \<times> float \<times> float" where
  "cardUV rect tex =
     (let w = of_int (Dx tex);
          h = of_int (Dy tex);
          halfTexUnitX = 1 / w;
          halfTexUnitY = 1 / w;
          u0 = (of_int (MinX rect) / w) + halfTexUnitX;
          u1 = (of_int (MaxX rect) / w) - halfTexUnitX;
          v0 = (of_int (MinY rect) / h) + halfTexUnitY;
          v1 = (of_int (MaxY rect) / h) - halfTexUnitY
      in (u0, u1, v0, v1))"

definition appendCard ::
  "mesh \<Rightarrow> float \<Rightarrow> float \<Rightarrow> float \<Rightarrow> float \<Rightarrow> float \<Rightarrow> rectangle \<Rightarrow> rectangle \<Rightarrow> mesh" where
  "appendCard m l r b t depth rect tex =
     (case cardUV rect tex of (u0, u1, v0, v1) \<Rightarrow>
        let m1 = addv depth m l t;
            m2 = addv depth m1 l b;
            m3 = addv depth m2 r b;
            m4 = addv depth m3 l t;
            m5 = addv depth m4 r b;
            m6 = addv depth m5 r t;
            m7 = addt m6 u0 v0;
            m8 = addt m7 u0 v1;
            m9 = addt m8 u1 v1;
            m10 = addt m9 u0 v0;
            m11 = addt m10 u1 v1;
            m12 = addt m11 u1 v0
        in m12)"

text \<open>The coordinates of set 0 of a mesh, none when the mesh has no set yet.\<close>

definition uvs :: "mesh \<Rightarrow> texcoord list" where
  "uvs m = (case TexCoords m of [] \<Rightarrow> [] | s # rest \<Rightarrow> s)"

section \<open>Polygon and polyline points: \<open>toPoints\<close>\<close>











section \<open>The tile map\<close>

text \<open>
  \<open>Tileset\<close>, \<open>Layer\<close> and \<open>Map\<close> with the fields that \<open>Load\<close> reads. The tile
  size of a tileset is \<open>TsWidth\<close> by \<open>TsHeight\<close> (the fields \<open>Width\<close> and \<open>Height\<close>
  of \<open>Tileset\<close>), \<open>ImageSource\<close> is \<open>Image.Source\<close>. The tiles of a layer are a
  Go map from \<open>Coord{x, y}\<close> to the tile's global id.
\<close>

record Tileset =
  Firstgid :: "32 word"
  TsWidth :: int
  TsHeight :: int
  Margin :: int
  Spacing :: int
  ImageSource :: string

record Layer =
  Name :: string
  Tiles :: "int \<times> int \<rightharpoonup> 32 word"

record tmxMap =
  Width :: int
  Height :: int
  TileWidth :: int
  TileHeight :: int
  Layers :: "Layer list"
  Tilesets :: "Tileset list"

record Config =
  LayerOffset :: float
  TileOffset :: float

text \<open>\<open>image.RGBA\<close>: the pixel bytes and the bounds \<open>Rect\<close>.\<close>

record RGBA =
  Pix :: "8 word list"
  Rect :: rectangle

text \<open>
  \<open>gfx.Texture\<close> and \<open>gfx.Object\<close>. Every object that \<open>Load\<close> creates has one
  mesh (\<open>Meshes[0]\<close>) and one texture, and the same shader, wrap modes, filters and
  state constants, which the records leave out.
\<close>

record Texture =
  Source :: RGBA
  Bounds :: rectangle

record gfxObject =
  Mesh :: mesh
  Tex :: Texture

text \<open>
  The parts of package \<open>tmx\<close> that \<open>Load\<close> uses and whose code is not in the files
  at hand are parameters of the model: the methods \<open>FindTileset\<close> (a nil result is
  \<open>None\<close>) and \<open>TilesetRect\<close> (a panic is \<open>None\<close>) of \<open>Map\<close> and the three flag
  constants.
\<close>

record pkg =
  FindTileset :: "tmxMap \<Rightarrow> 32 word \<Rightarrow> Tileset option"
  TilesetRect :: "tmxMap \<Rightarrow> Tileset \<Rightarrow> int \<Rightarrow> int \<Rightarrow> bool \<Rightarrow> 32 word \<Rightarrow> rectangle option"
  FLIPPED_DIAGONALLY_FLAG :: "32 word"
  FLIPPED_HORIZONTALLY_FLAG :: "32 word"
  FLIPPED_VERTICALLY_FLAG :: "32 word"

text \<open>
  The operations of the library \<open>lmath\<close> on \<open>Mat4\<close> that \<open>Load\<close> uses, over any
  type \<open>'m\<close> of matrices. \<open>Mat4FromAxisAngle L axis d\<close> stands for
  \<open>lmath.Mat4FromAxisAngle(axis, lmath.Radians(d), lmath.CoordSysZUpRight)\<close>, and
  \<open>Mul L a b\<close> for \<open>a.Mul(b)\<close>.
\<close>

record 'm lmath =
  Mat4Identity :: 'm
  Mul :: "'m \<Rightarrow> 'm \<Rightarrow> 'm"
  Mat4FromAxisAngle :: "vec3 \<Rightarrow> int \<Rightarrow> 'm"
  Mat4FromTranslation :: "vec3 \<Rightarrow> 'm"
  TransformMat4 :: "vec3 \<Rightarrow> 'm \<Rightarrow> vec3"

text \<open>The package variables that \<open>init\<close> sets.\<close>

definition cw90 :: "'m lmath \<Rightarrow> 'm" where
  "cw90 L = Mat4FromAxisAngle L (0, 1, 0) 90"

definition cwn90 :: "'m lmath \<Rightarrow> 'm" where
  "cwn90 L = Mat4FromAxisAngle L (0, 1, 0) (- 90)"

definition horizFlip :: "'m lmath \<Rightarrow> 'm" where
  "horizFlip L = Mat4FromAxisAngle L (0, 0, 1) 180"

definition vertFlip :: "'m lmath \<Rightarrow> 'm" where
  "vertFlip L = Mat4FromAxisAngle L (1, 0, 0) 180"

text \<open>
  \<open>filepath.Base\<close> with the separator \<open>/\<close>: the last element of the path, trailing
  slashes removed first.
\<close>

definition Base :: "string \<Rightarrow> string" where
  "Base path =
     (if path = [] then ''.''
      else let p = rev (dropWhile (\<lambda>c. c = CHR ''/'') (rev path));
               q = rev (takeWhile (\<lambda>c. c \<noteq> CHR ''/'') (rev p))
           in if q = [] then ''/'' else q)"

section \<open>The tile compiler: \<open>Load\<close>\<close>

datatype panic = NilTileset | RectPanic

text \<open>
  A loop over a list of indices whose body may panic: the first panic ends it.
\<close>

fun forEach :: "('i \<Rightarrow> 's \<Rightarrow> panic + 's) \<Rightarrow> 'i list \<Rightarrow> 's \<Rightarrow> panic + 's" where
  "forEach body [] s = Inr s"
| "forEach body (i # rest) s =
     (case body i s of Inl e \<Rightarrow> Inl e | Inr s' \<Rightarrow> forEach body rest s')"

text \<open>Lines 239 to 262: the flip of a tile from its three flags.\<close>

definition flipOf :: "'m lmath \<Rightarrow> bool \<Rightarrow> bool \<Rightarrow> bool \<Rightarrow> 'm" where
  "flipOf L diagFlipped horizFlipped vertFlipped =
     (let flip = Mat4Identity L
      in if diagFlipped then
           (if horizFlipped \<and> vertFlipped then
              (let flip1 = Mul L (cw90 L) flip in Mul L (horizFlip L) flip1)
            else if horizFlipped then Mul L (cw90 L) flip
            else if vertFlipped then Mul L (cwn90 L) flip
            else (let flip1 = Mul L (horizFlip L) flip in Mul L (cw90 L) flip1))
         else
           (let flip1 = (if horizFlipped then Mul L (horizFlip L) flip else flip)
            in if vertFlipped then Mul L (vertFlip L) flip1 else flip1))"

definition gidFlip :: "'m lmath \<Rightarrow> pkg \<Rightarrow> 32 word \<Rightarrow> 'm" where
  "gidFlip L P gid =
     flipOf L (and gid (FLIPPED_DIAGONALLY_FLAG P) > 0)
              (and gid (FLIPPED_HORIZONTALLY_FLAG P) > 0)
              (and gid (FLIPPED_VERTICALLY_FLAG P) > 0)"

text \<open>Lines 265 to 269: the translation of the card of the tile at cell \<open>(x, y)\<close>.\<close>

definition moveVec :: "tmxMap \<Rightarrow> Tileset \<Rightarrow> float \<Rightarrow> float \<Rightarrow> int \<Rightarrow> int \<Rightarrow> vec3" where
  "moveVec m tileset layerOffset tileOffset x y =
     (let halfWidth = of_int (TsWidth tileset) / 2;
          halfHeight = of_int (TsHeight tileset) / 2
      in (of_int (x * TileWidth m) + halfWidth,
          layerOffset + tileOffset,
          of_int ((Height m - y) * TileHeight m) - halfHeight))"

text \<open>
  The state of the loops over the cells of one layer: the objects by image name,
  the running \<open>tileOffset\<close>, and a record of the tiles placed so far, in the order
  of their placement, which the code does not keep.
\<close>

record placement =
  pCell :: "int \<times> int"
  pImage :: string
  pMove :: vec3

record layerState =
  texObjects :: "string \<rightharpoonup> gfxObject"
  tileOffset :: float
  placed :: "placement list"

text \<open>Lines 203 to 221: the new object for an image.\<close>

definition newObject :: "RGBA \<Rightarrow> gfxObject" where
  "newObject rgba = \<lparr>Mesh = NewMesh, Tex = \<lparr>Source = rgba, Bounds = Rect rgba\<rparr>\<rparr>"

text \<open>Lines 183 to 279: the body of the loops, at cell \<open>(x, y)\<close>.\<close>

definition cellStep ::
  "'m lmath \<Rightarrow> pkg \<Rightarrow> tmxMap \<Rightarrow> Config \<Rightarrow> (string \<rightharpoonup> RGBA) \<Rightarrow> Layer \<Rightarrow> float \<Rightarrow>
   int \<Rightarrow> int \<Rightarrow> layerState \<Rightarrow> panic + layerState" where
  "cellStep L P m c tsImages layer layerOffset x y st =
     (case Tiles layer (x, y) of
        None \<Rightarrow> Inr st
      | Some gid \<Rightarrow>
          (case FindTileset P m gid of
             None \<Rightarrow> Inl NilTileset
           | Some tileset \<Rightarrow>
               (let tsImage = Base (ImageSource tileset)
                in case tsImages tsImage of
                     None \<Rightarrow> Inr st
                   | Some rgba \<Rightarrow>
                       (let obj = (case texObjects st tsImage of
                                     None \<Rightarrow> newObject rgba
                                   | Some ob \<Rightarrow> ob)
                        in case TilesetRect P m tileset (Dx (Rect rgba)) (Dy (Rect rgba)) True gid of
                             None \<Rightarrow> Inl RectPanic
                           | Some r \<Rightarrow>
                               (let halfWidth = of_int (TsWidth tileset) / 2;
                                    halfHeight = of_int (TsHeight tileset) / 2;
                                    cardStart = length (Vertices (Mesh obj));
                                    mesh1 = appendCard (Mesh obj) (- halfWidth) halfWidth
                                              (- halfHeight) halfHeight 0 r (Rect rgba);
                                    flip = gidFlip L P gid;
                                    mv = moveVec m tileset layerOffset (tileOffset st) x y;
                                    move = Mat4FromTranslation L mv;
                                    trans = Mul L flip move;
                                    verts = Vertices mesh1;
                                    verts1 = take cardStart verts @
                                             map (\<lambda>v. TransformMat4 L v trans) (drop cardStart verts);
                                    obj1 = obj\<lparr>Mesh := mesh1\<lparr>Vertices := verts1\<rparr>\<rparr>
                                in Inr \<lparr>texObjects = (texObjects st)(tsImage \<mapsto> obj1),
                                        tileOffset = tileOffset st - TileOffset c,
                                        placed = placed st @
                                          [\<lparr>pCell = (x, y), pImage = tsImage, pMove = mv\<rparr>]\<rparr>)))))"

text \<open>Lines 178 to 282: one layer, from empty \<open>texObjects\<close> and \<open>tileOffset\<close> 0.\<close>

definition initLayer :: layerState where
  "initLayer = \<lparr>texObjects = Map.empty, tileOffset = 0, placed = []\<rparr>"

definition loadLayer ::
  "'m lmath \<Rightarrow> pkg \<Rightarrow> tmxMap \<Rightarrow> Config \<Rightarrow> (string \<rightharpoonup> RGBA) \<Rightarrow> Layer \<Rightarrow> float \<Rightarrow>
   panic + layerState" where
  "loadLayer L P m c tsImages layer layerOffset =
     forEach (\<lambda>x. forEach (\<lambda>y. cellStep L P m c tsImages layer layerOffset x y)
                             [0 .. Height m - 1])
             [0 .. Width m - 1] initLayer"

text \<open>
  The state of the loop over the layers: the result map, the running
  \<open>layerOffset\<close>, and for each layer done its offset and its placed tiles.
\<close>

record loadState =
  layers :: "string \<rightharpoonup> (string \<rightharpoonup> gfxObject)"
  layerOffset :: float
  runs :: "(float \<times> placement list) list"

definition layerStep ::
  "'m lmath \<Rightarrow> pkg \<Rightarrow> tmxMap \<Rightarrow> Config \<Rightarrow> (string \<rightharpoonup> RGBA) \<Rightarrow> Layer \<Rightarrow> loadState \<Rightarrow>
   panic + loadState" where
  "layerStep L P m c tsImages layer S =
     (case loadLayer L P m c tsImages layer (layerOffset S) of
        Inl e \<Rightarrow> Inl e
      | Inr st \<Rightarrow>
          Inr \<lparr>layers = (layers S)(Name layer \<mapsto> texObjects st),
               layerOffset = layerOffset S - LayerOffset c,
               runs = runs S @ [(layerOffset S, placed st)]\<rparr>)"

definition defaultConfig :: Config where
  "defaultConfig = \<lparr>LayerOffset = 1 / 1000, TileOffset = 1 / 1000000\<rparr>"

definition theConfig :: "Config option \<Rightarrow> Config" where
  "theConfig c = (case c of None \<Rightarrow> defaultConfig | Some c' \<Rightarrow> c')"

definition initLoad :: loadState where
  "initLoad = \<lparr>layers = Map.empty, layerOffset = 0, runs = []\<rparr>"

definition LoadRun ::
  "'m lmath \<Rightarrow> pkg \<Rightarrow> tmxMap \<Rightarrow> Config option \<Rightarrow> (string \<rightharpoonup> RGBA) \<Rightarrow> panic + loadState" where
  "LoadRun L P m c tsImages =
     forEach (layerStep L P m (theConfig c) tsImages) (Layers m) initLoad"

definition Load ::
  "'m lmath \<Rightarrow> pkg \<Rightarrow> tmxMap \<Rightarrow> Config option \<Rightarrow> (string \<rightharpoonup> RGBA) \<Rightarrow>
   panic + (string \<rightharpoonup> (string \<rightharpoonup> gfxObject))" where
  "Load L P m c tsImages = map_sum id layers (LoadRun L P m c tsImages)"

section \<open>Instances of the parameters\<close>

text \<open>
  Modelled from the spec: the flag constants of package \<open>tmx\<close>, which are not in
  the sources at hand. Bit 31 is the vertical flip, bit 30 the horizontal flip and
  bit 29 the diagonal flip.
\<close>

definition specFlagV :: "32 word" where
  "specFlagV = 0x80000000"

definition specFlagH :: "32 word" where
  "specFlagH = 0x40000000"

definition specFlagD :: "32 word" where
  "specFlagD = 0x20000000"

text \<open>
  Modelled from the spec: the base index of a global id, which is its low 29 bits,
  the three flags removed.
\<close>

definition gidBase :: "32 word \<Rightarrow> 32 word" where
  "gidBase gid = and gid 0x1FFFFFFF"

text \<open>
  Modelled from the spec: the method \<open>FindTileset\<close> of \<open>Map\<close>, which is not in the
  sources at hand. The owner of a global id is the tileset with the greatest first
  global id that does not exceed the base index, none when there is no such tileset.
\<close>

fun specFindTileset_loop :: "Tileset list \<Rightarrow> 32 word \<Rightarrow> Tileset option \<Rightarrow> Tileset option" where
  "specFindTileset_loop [] b best = best"
| "specFindTileset_loop (ts # rest) b best =
     (if Firstgid ts \<le> b \<and> (case best of None \<Rightarrow> True | Some t \<Rightarrow> Firstgid t < Firstgid ts)
      then specFindTileset_loop rest b (Some ts)
      else specFindTileset_loop rest b best)"

definition specFindTileset :: "tmxMap \<Rightarrow> 32 word \<Rightarrow> Tileset option" where
  "specFindTileset m gid = specFindTileset_loop (Tilesets m) (gidBase gid) None"

text \<open>
  Modelled from the spec: the method \<open>TilesetRect\<close> of \<open>Map\<close>, which is not in the
  sources at hand. The columns of a row are
  \<open>floor((atlasWidth - 2 margin + spacing) / (tileWidth + spacing))\<close>, the local index
  is the base index less the first global id, the tile is at row
  \<open>index / columns\<close> and column \<open>index % columns\<close>, its rectangle starts at
  \<open>margin + col (tileWidth + spacing)\<close>, \<open>margin + row (tileHeight + spacing)\<close> and
  has the size of a tile. A division by zero is a panic.
\<close>

definition specTilesetRect ::
  "tmxMap \<Rightarrow> Tileset \<Rightarrow> int \<Rightarrow> int \<Rightarrow> bool \<Rightarrow> 32 word \<Rightarrow> rectangle option" where
  "specTilesetRect m t width height inset gid =
     (if TsWidth t + Spacing t = 0 then None
      else let columns = (width - 2 * Margin t + Spacing t) div (TsWidth t + Spacing t)
           in if columns = 0 then None
              else let index = uint (gidBase gid - Firstgid t);
                       row = index div columns;
                       col = index mod columns;
                       x0 = Margin t + col * (TsWidth t + Spacing t);
                       y0 = Margin t + row * (TsHeight t + Spacing t)
                   in Some \<lparr>MinX = x0, MinY = y0, MaxX = x0 + TsWidth t, MaxY = y0 + TsHeight t\<rparr>)"

definition specPkg :: pkg where
  "specPkg = \<lparr>FindTileset = specFindTileset, TilesetRect = specTilesetRect,
              FLIPPED_DIAGONALLY_FLAG = specFlagD,
              FLIPPED_HORIZONTALLY_FLAG = specFlagH,
              FLIPPED_VERTICALLY_FLAG = specFlagV\<rparr>"

text \<open>
  An exact instance of the matrix operations, for the evaluation of examples: a
  transform is the function it applies to a vector, \<open>a.Mul(b)\<close> applies \<open>a\<close> first,
  and the rotation about a unit coordinate axis by a multiple of 90 degrees follows
  the right hand rule.
\<close>

definition cosDeg :: "int \<Rightarrow> rat" where
  "cosDeg d = (if d mod 360 = 0 then 1 else if d mod 360 = 180 then - 1 else 0)"

definition sinDeg :: "int \<Rightarrow> rat" where
  "sinDeg d = (if d mod 360 = 90 then 1 else if d mod 360 = 270 then - 1 else 0)"

definition rotate :: "vec3 \<Rightarrow> int \<Rightarrow> vec3 \<Rightarrow> vec3" where
  "rotate axis d v =
     (case axis of (kx, ky, kz) \<Rightarrow> case v of (x, y, z) \<Rightarrow>
        let c = cosDeg d; s = sinDeg d; kv = (kx * x + ky * y + kz * z) * (1 - c)
        in (x * c + (ky * z - kz * y) * s + kx * kv,
            y * c + (kz * x - kx * z) * s + ky * kv,
            z * c + (kx * y - ky * x) * s + kz * kv))"

definition translate :: "vec3 \<Rightarrow> vec3 \<Rightarrow> vec3" where
  "translate t v = (case t of (tx, ty, tz) \<Rightarrow> case v of (x, y, z) \<Rightarrow> (x + tx, y + ty, z + tz))"

definition exactLmath :: "(vec3 \<Rightarrow> vec3) lmath" where
  "exactLmath = \<lparr>Mat4Identity = (\<lambda>v. v), Mul = (\<lambda>a b v. b (a v)),
                 Mat4FromAxisAngle = rotate, Mat4FromTranslation = translate,
                 TransformMat4 = (\<lambda>v f. f v)\<rparr>"

text \<open>
  The example map of the spec: 2 by 1 cells of 32 by 32 pixels, one layer
  \<open>ground\<close> with the tile 1 at cell \<open>(0, 0)\<close>, one tileset of first global id 1 on
  an atlas of 64 by 32 pixels, whose image is supplied.
\<close>

definition exTileset :: Tileset where
  "exTileset = \<lparr>Firstgid = 1, TsWidth = 32, TsHeight = 32, Margin = 0, Spacing = 0,
                ImageSource = ''img/tiles.png''\<rparr>"

definition exLayer :: Layer where
  "exLayer = \<lparr>Name = ''ground'', Tiles = [(0, 0) \<mapsto> 1]\<rparr>"

definition exMap :: tmxMap where
  "exMap = \<lparr>Width = 2, Height = 1, TileWidth = 32, TileHeight = 32,
            Layers = [exLayer], Tilesets = [exTileset]\<rparr>"

definition exAtlas :: RGBA where
  "exAtlas = \<lparr>Pix = [], Rect = \<lparr>MinX = 0, MinY = 0, MaxX = 64, MaxY = 32\<rparr>\<rparr>"

definition exImages :: "string \<rightharpoonup> RGBA" where
  "exImages = [''tiles.png'' \<mapsto> exAtlas]"

text \<open>
  A second tileset, of first global id 3, whose image \<open>other.png\<close> is not among
  \<open>exImages\<close>, and maps of 2 by 1 cells that use both tilesets: \<open>exMap2\<close> has two
  layers of the same name, the second with a tile of the second tileset and a tile
  flipped horizontally, \<open>exMap3\<close> has one layer with a tile of each tileset.
  \<open>exLayerD\<close> is \<open>exLayer\<close> with one more tile outside the grid.
\<close>

definition exTileset2 :: Tileset where
  "exTileset2 = \<lparr>Firstgid = 3, TsWidth = 32, TsHeight = 32, Margin = 0, Spacing = 0,
                 ImageSource = ''img/other.png''\<rparr>"

definition exLayerA :: Layer where
  "exLayerA = \<lparr>Name = ''ground'', Tiles = [(0, 0) \<mapsto> 1, (1, 0) \<mapsto> 2]\<rparr>"

definition exLayerB :: Layer where
  "exLayerB = \<lparr>Name = ''ground'', Tiles = [(0, 0) \<mapsto> 3, (1, 0) \<mapsto> 0x40000002]\<rparr>"

definition exMap2 :: tmxMap where
  "exMap2 = \<lparr>Width = 2, Height = 1, TileWidth = 32, TileHeight = 32,
             Layers = [exLayerA, exLayerB], Tilesets = [exTileset, exTileset2]\<rparr>"

definition exLayerC :: Layer where
  "exLayerC = \<lparr>Name = ''ground'', Tiles = [(0, 0) \<mapsto> 1, (1, 0) \<mapsto> 3]\<rparr>"

definition exMap3 :: tmxMap where
  "exMap3 = \<lparr>Width = 2, Height = 1, TileWidth = 32, TileHeight = 32,
             Layers = [exLayerC], Tilesets = [exTileset, exTileset2]\<rparr>"






section \<open>Notions for the statements about \<open>Load\<close>\<close>

text \<open>
  The cells of the grid in the order of the loops: \<open>x\<close> outside, from 0 below \<open>Width\<close>,
  \<open>y\<close> inside, from 0 below \<open>Height\<close>.
\<close>

definition cells :: "tmxMap \<Rightarrow> (int \<times> int) list" where
  "cells m = concat (map (\<lambda>x. map (Pair x) [0 .. Height m - 1]) [0 .. Width m - 1])"

text \<open>
  The tileset that \<open>FindTileset\<close> returns for the tile of a cell.
\<close>

definition owner :: "pkg \<Rightarrow> tmxMap \<Rightarrow> Layer \<Rightarrow> int \<times> int \<Rightarrow> Tileset option" where
  "owner P m layer cell =
     (case Tiles layer cell of None \<Rightarrow> None | Some gid \<Rightarrow> FindTileset P m gid)"

text \<open>
  The name of the image of a cell's tile, when the tile has an owner and the owner's
  image is supplied: the cells whose tiles \<open>Load\<close> does not omit.
\<close>

definition placedImage ::
  "pkg \<Rightarrow> tmxMap \<Rightarrow> (string \<rightharpoonup> RGBA) \<Rightarrow> Layer \<Rightarrow> int \<times> int \<Rightarrow> string option" where
  "placedImage P m tsImages layer cell =
     (case owner P m layer cell of
        None \<Rightarrow> None
      | Some ts \<Rightarrow> (case tsImages (Base (ImageSource ts)) of
                     None \<Rightarrow> None
                   | Some rgba \<Rightarrow> Some (Base (ImageSource ts))))"

text \<open>
  The number of vertices of the batch of an image, 0 when there is none.
\<close>

definition vcount :: "(string \<rightharpoonup> gfxObject) \<Rightarrow> string \<Rightarrow> nat" where
  "vcount objs k = (case objs k of None \<Rightarrow> 0 | Some ob \<Rightarrow> length (Vertices (Mesh ob)))"


text \<open>
  A cell at which the body of the loops does not panic: its tile, if any, has an
  owner, and \<open>TilesetRect\<close> returns when the image is supplied.
\<close>

definition cellOK :: "pkg \<Rightarrow> tmxMap \<Rightarrow> (string \<rightharpoonup> RGBA) \<Rightarrow> Layer \<Rightarrow> int \<times> int \<Rightarrow> bool" where
  "cellOK P m tsImages layer cell =
     (case Tiles layer cell of
        None \<Rightarrow> True
      | Some gid \<Rightarrow>
          (case FindTileset P m gid of
             None \<Rightarrow> False
           | Some ts \<Rightarrow>
               (case tsImages (Base (ImageSource ts)) of
                  None \<Rightarrow> True
                | Some rgba \<Rightarrow>
                    (case TilesetRect P m ts (Dx (Rect rgba)) (Dy (Rect rgba)) True gid of
                       None \<Rightarrow> False
                     | Some r \<Rightarrow> True))))"

text \<open>
  No cell of the grid of any layer makes \<open>Load\<close> panic.
\<close>

definition mapOK :: "pkg \<Rightarrow> tmxMap \<Rightarrow> (string \<rightharpoonup> RGBA) \<Rightarrow> bool" where
  "mapOK P m tsImages =
     (\<forall>layer \<in> set (Layers m). \<forall>cell \<in> set (cells m). cellOK P m tsImages layer cell)"

text \<open>
  No tile of the grid of any layer is placed: none has an owner whose image is
  supplied.
\<close>

definition unsupplied :: "pkg \<Rightarrow> tmxMap \<Rightarrow> (string \<rightharpoonup> RGBA) \<Rightarrow> bool" where
  "unsupplied P m tsImages =
     (\<forall>layer \<in> set (Layers m). \<forall>cell \<in> set (cells m).
        placedImage P m tsImages layer cell = None)"




text \<open>
  Layer \<open>i\<close> is the last layer of the name \<open>n\<close>.
\<close>

definition lastNamed :: "Layer list \<Rightarrow> string \<Rightarrow> nat \<Rightarrow> bool" where
  "lastNamed ls n i =
     (i < length ls \<and> Name (ls ! i) = n \<and> (\<forall>j. i < j \<and> j < length ls \<longrightarrow> Name (ls ! j) \<noteq> n))"

text \<open>
  The offset of layer \<open>i\<close>.
\<close>

definition layerBase :: "Config \<Rightarrow> nat \<Rightarrow> float" where
  "layerBase c i = - (of_nat i * LayerOffset c)"

text \<open>
  What the loop over the layers \<open>ls\<close> has established in the state \<open>S\<close>.
\<close>

definition loadFacts ::
  "'m lmath \<Rightarrow> pkg \<Rightarrow> tmxMap \<Rightarrow> Config \<Rightarrow> (string \<rightharpoonup> RGBA) \<Rightarrow> Layer list \<Rightarrow> loadState \<Rightarrow> bool" where
  "loadFacts L P m c tsImages ls S =
     (length (runs S) = length ls \<and>
      layerOffset S = layerBase c (length ls) \<and>
      (\<forall>i < length ls. \<exists>st.
         loadLayer L P m c tsImages (ls ! i) (layerBase c i) = Inr st \<and>
         runs S ! i = (layerBase c i, placed st)) \<and>
      (\<forall>n. n \<notin> Name ` set ls \<longrightarrow> layers S n = None) \<and>
      (\<forall>n i. lastNamed ls n i \<longrightarrow>
         (\<exists>st. loadLayer L P m c tsImages (ls ! i) (layerBase c i) = Inr st \<and>
               layers S n = Some (texObjects st))))"

section \<open>The statements of the specification\<close>

text \<open>
  The inset of the specification: the rectangle in texture coordinates is shrunk on
  each horizontal edge by \<open>1 / atlasWidth\<close> and on each vertical edge by
  \<open>1 / atlasHeight\<close>.
\<close>

definition insetUV :: "rectangle \<Rightarrow> rectangle \<Rightarrow> float \<times> float \<times> float \<times> float" where
  "insetUV rect tex =
     (of_int (MinX rect) / of_int (Dx tex) + 1 / of_int (Dx tex),
      of_int (MaxX rect) / of_int (Dx tex) - 1 / of_int (Dx tex),
      of_int (MinY rect) / of_int (Dy tex) + 1 / of_int (Dy tex),
      of_int (MaxY rect) / of_int (Dy tex) - 1 / of_int (Dy tex))"




section \<open>Properties of the quad emitter\<close>

lemma Vertices_addt: "Vertices (addt m u v) = Vertices m"
  by (simp add: addt_def split: list.splits)

lemma uvs_addt: "uvs (addt m u v) = uvs m @ [(u, v)]"
  by (simp add: addt_def uvs_def split: list.splits)

lemma uvs_addv: "uvs (addv d m x y) = uvs m"
  by (simp add: addv_def uvs_def)

lemma Vertices_addv: "Vertices (addv d m x y) = Vertices m @ [(x, d, y)]"
  by (simp add: addv_def)

lemma Vertices_appendCard:
  "Vertices (appendCard m l r b t d rect tex) =
     Vertices m @ [(l, d, t), (l, d, b), (r, d, b), (l, d, t), (r, d, b), (r, d, t)]"
  by (simp add: appendCard_def Let_def Vertices_addt Vertices_addv split: prod.splits)

lemma uvs_appendCard:
  "uvs (appendCard m l r b t d rect tex) =
     (case cardUV rect tex of (u0, u1, v0, v1) \<Rightarrow>
        uvs m @ [(u0, v0), (u0, v1), (u1, v1), (u0, v0), (u1, v1), (u1, v0)])"
  by (simp add: appendCard_def Let_def uvs_addt uvs_addv split: prod.splits)

text \<open>
  C1: at the atlas of 64 by 32 pixels and the tile rectangle from \<open>(0, 0)\<close> to
  \<open>(32, 32)\<close>, \<open>appendCard\<close> insets the vertical edges by \<open>1 / 64\<close>, the inverse of
  the atlas width, where the specification insets them by \<open>1 / 32\<close>, the inverse of
  the atlas height.
\<close>

theorem cardUV_vertical_inset_by_width:
  "cardUV \<lparr>MinX = 0, MinY = 0, MaxX = 32, MaxY = 32\<rparr> \<lparr>MinX = 0, MinY = 0, MaxX = 64, MaxY = 32\<rparr>
     = (1 / 64, 31 / 64, 1 / 64, 63 / 64) \<and>
   insetUV \<lparr>MinX = 0, MinY = 0, MaxX = 32, MaxY = 32\<rparr> \<lparr>MinX = 0, MinY = 0, MaxX = 64, MaxY = 32\<rparr>
     = (1 / 64, 31 / 64, 1 / 32, 31 / 32)"
  by (simp add: cardUV_def insetUV_def Dx_def Dy_def Let_def)

section \<open>The orientation of a tile\<close>



section \<open>Properties of \<open>toPoints\<close>\<close>





section \<open>The loops of \<open>Load\<close>\<close>

lemma forEach_append:
  "forEach body (xs @ ys) s =
     (case forEach body xs s of Inl e \<Rightarrow> Inl e | Inr s' \<Rightarrow> forEach body ys s')"
  by (induction xs arbitrary: s) (auto split: sum.splits)



lemma forEach_total:
  "(\<And>i t. i \<in> set xs \<Longrightarrow> \<exists>t'. f i t = Inr t') \<Longrightarrow> \<exists>s'. forEach f xs s = Inr s'"
proof (induction xs arbitrary: s)
  case Nil
  then show ?case by simp
next
  case (Cons i rest)
  from Cons.prems [of i s] obtain t where t: "f i s = Inr t" by auto
  from Cons.IH [of t] Cons.prems obtain s' where "forEach f rest t = Inr s'" by auto
  with t show ?case by simp
qed

lemma forEach_nested:
  "forEach (\<lambda>x. forEach (g x) ys) xs s =
     forEach (\<lambda>(x, y). g x y) (concat (map (\<lambda>x. map (Pair x) ys) xs)) s"
proof (induction xs arbitrary: s)
  case Nil
  then show ?case by simp
next
  case (Cons x xs)
  have inner: "forEach (\<lambda>(x, y). g x y) (map (Pair x) ys) t = forEach (g x) ys t" for t
    by (induction ys arbitrary: t) (auto split: sum.splits)
  show ?case by (simp add: forEach_append inner Cons.IH split: sum.splits)
qed

lemma loadLayer_cells:
  "loadLayer L P m c tsImages layer off =
     forEach (\<lambda>(x, y). cellStep L P m c tsImages layer off x y) (cells m) initLayer"
  by (simp add: loadLayer_def cells_def forEach_nested)

lemma cellStep_skip:
  "placedImage P m tsImages layer (x, y) = None \<Longrightarrow>
   cellStep L P m c tsImages layer off x y st = Inr st' \<Longrightarrow> st' = st"
  by (auto simp: placedImage_def owner_def cellStep_def Let_def split: option.splits)

lemma cellStep_place:
  assumes "placedImage P m tsImages layer (x, y) = Some k"
    and "cellStep L P m c tsImages layer off x y st = Inr st'"
  shows "\<exists>ts ob. owner P m layer (x, y) = Some ts \<and> k = Base (ImageSource ts) \<and>
           placed st' = placed st @
             [\<lparr>pCell = (x, y), pImage = k, pMove = moveVec m ts off (tileOffset st) x y\<rparr>] \<and>
           tileOffset st' = tileOffset st - TileOffset c \<and>
           texObjects st' = (texObjects st)(k \<mapsto> ob) \<and>
           length (Vertices (Mesh ob)) = vcount (texObjects st) k + 6"
  using assms
  by (auto simp: placedImage_def owner_def cellStep_def Let_def vcount_def newObject_def
      NewMesh_def Vertices_appendCard split: option.splits)

lemma cellStep_total:
  "cellOK P m tsImages layer (x, y) \<Longrightarrow> \<exists>st'. cellStep L P m c tsImages layer off x y st = Inr st'"
  by (auto simp: cellOK_def cellStep_def Let_def split: option.splits)

lemma cellStep_OK:
  "cellStep L P m c tsImages layer off x y st = Inr st' \<Longrightarrow> cellOK P m tsImages layer (x, y)"
  by (auto simp: cellOK_def cellStep_def Let_def split: option.splits)

lemma loadLayer_total:
  assumes "\<forall>cell \<in> set (cells m). cellOK P m tsImages layer cell"
  shows "\<exists>st. loadLayer L P m c tsImages layer off = Inr st"
  unfolding loadLayer_cells
proof (rule forEach_total)
  fix i t
  assume "i \<in> set (cells m)"
  with assms have "cellOK P m tsImages layer i" by simp
  then show "\<exists>t'. (case i of (x, y) \<Rightarrow> cellStep L P m c tsImages layer off x y) t = Inr t'"
    by (cases i) (simp add: cellStep_total)
qed

lemma cellStep_cases:
  assumes "cellStep L P m c tsImages layer off x y st = Inr st'"
  shows "(placedImage P m tsImages layer (x, y) = None \<and> st' = st) \<or>
         (\<exists>k ts ob. placedImage P m tsImages layer (x, y) = Some k \<and>
            owner P m layer (x, y) = Some ts \<and> k = Base (ImageSource ts) \<and>
            placed st' = placed st @
               [\<lparr>pCell = (x, y), pImage = k, pMove = moveVec m ts off (tileOffset st) x y\<rparr>] \<and>
            tileOffset st' = tileOffset st - TileOffset c \<and>
            texObjects st' = (texObjects st)(k \<mapsto> ob) \<and>
            length (Vertices (Mesh ob)) = vcount (texObjects st) k + 6)"
proof (cases "placedImage P m tsImages layer (x, y)")
  case None
  with assms cellStep_skip show ?thesis by blast
next
  case (Some k)
  from cellStep_place [OF Some assms] Some show ?thesis by blast
qed




lemma placedImage_supplied:
  "placedImage P m tsImages layer cell = Some k \<Longrightarrow> tsImages k \<noteq> None"
  by (auto simp: placedImage_def split: option.splits)


lemma cells_run:
  assumes "forEach (\<lambda>(x, y). cellStep L P m c tsImages layer off x y) cs st = Inr st'"
  shows "vcount (texObjects st') k =
           vcount (texObjects st) k +
           6 * length (filter (\<lambda>cell. placedImage P m tsImages layer cell = Some k) cs) \<and>
         map pCell (placed st') =
           map pCell (placed st) @ filter (\<lambda>cell. placedImage P m tsImages layer cell \<noteq> None) cs \<and>
         (texObjects st' k = None \<longleftrightarrow>
            texObjects st k = None \<and>
            filter (\<lambda>cell. placedImage P m tsImages layer cell = Some k) cs = [])"
  using assms
proof (induction cs arbitrary: st)
  case Nil
  then show ?case by simp
next
  case (Cons cell cs)
  obtain x y where xy: "cell = (x, y)" by (cases cell)
  from Cons.prems xy obtain t where t: "cellStep L P m c tsImages layer off x y st = Inr t"
    and r: "forEach (\<lambda>(x, y). cellStep L P m c tsImages layer off x y) cs t = Inr st'"
    by (auto split: sum.splits)
  note IH = Cons.IH [OF r]
  from cellStep_cases [OF t] show ?case
  proof (elim disjE exE conjE)
    assume "placedImage P m tsImages layer (x, y) = None" and "t = st"
    with IH xy show ?thesis by simp
  next
    fix k' ts ob
    assume pi: "placedImage P m tsImages layer (x, y) = Some k'"
      and p: "placed t = placed st @
               [\<lparr>pCell = (x, y), pImage = k', pMove = moveVec m ts off (tileOffset st) x y\<rparr>]"
      and o: "texObjects t = (texObjects st)(k' \<mapsto> ob)"
      and n: "length (Vertices (Mesh ob)) = vcount (texObjects st) k' + 6"
    have v: "vcount (texObjects t) k = vcount (texObjects st) k + (if k' = k then 6 else 0)"
      using o n by (simp add: vcount_def)
    have d: "texObjects t k = None \<longleftrightarrow> texObjects st k = None \<and> k' \<noteq> k"
      using o by auto
    from IH v d p pi xy show ?thesis by auto
  qed
qed

lemma loadLayer_batches:
  assumes "loadLayer L P m c tsImages layer off = Inr st"
  shows "vcount (texObjects st) k =
           6 * length (filter (\<lambda>cell. placedImage P m tsImages layer cell = Some k) (cells m))"
    and "map pCell (placed st) =
           filter (\<lambda>cell. placedImage P m tsImages layer cell \<noteq> None) (cells m)"
    and "texObjects st k = None \<longleftrightarrow>
           filter (\<lambda>cell. placedImage P m tsImages layer cell = Some k) (cells m) = []"
  using cells_run [OF assms [unfolded loadLayer_cells], of k]
  by (simp_all add: initLayer_def vcount_def)

lemma loadLayer_unsupplied:
  assumes "loadLayer L P m c tsImages layer off = Inr st" and "tsImages k = None"
  shows "texObjects st k = None"
proof -
  have "filter (\<lambda>cell. placedImage P m tsImages layer cell = Some k) (cells m) = []"
    using assms(2) placedImage_supplied by (fastforce simp: filter_empty_conv)
  with loadLayer_batches(3) [OF assms(1)] show ?thesis by simp
qed

lemma lastNamed_snoc:
  "lastNamed (ls @ [l]) n i \<longleftrightarrow>
     (i = length ls \<and> Name l = n) \<or> (lastNamed ls n i \<and> Name l \<noteq> n)"
proof
  assume a: "lastNamed (ls @ [l]) n i"
  show "(i = length ls \<and> Name l = n) \<or> (lastNamed ls n i \<and> Name l \<noteq> n)"
  proof (cases "i = length ls")
    case True
    with a show ?thesis by (simp add: lastNamed_def)
  next
    case False
    with a have i: "i < length ls" by (simp add: lastNamed_def)
    from a i have "Name ((ls @ [l]) ! length ls) \<noteq> n"
      unfolding lastNamed_def by (metis length_append_singleton lessI)
    then have "Name l \<noteq> n" by simp
    moreover have "lastNamed ls n i"
      using a i unfolding lastNamed_def
      by (metis length_append_singleton less_Suc_eq nth_append)
    ultimately show ?thesis by simp
  qed
next
  assume "(i = length ls \<and> Name l = n) \<or> (lastNamed ls n i \<and> Name l \<noteq> n)"
  then show "lastNamed (ls @ [l]) n i"
    by (auto simp: lastNamed_def nth_append less_Suc_eq)
qed

lemma layers_run:
  "forEach (layerStep L P m c tsImages) ls initLoad = Inr S \<Longrightarrow> loadFacts L P m c tsImages ls S"
proof (induction ls arbitrary: S rule: rev_induct)
  case Nil
  then show ?case by (auto simp: loadFacts_def initLoad_def layerBase_def lastNamed_def)
next
  case (snoc l ls)
  from snoc.prems obtain S1 where S1: "forEach (layerStep L P m c tsImages) ls initLoad = Inr S1"
    and step: "layerStep L P m c tsImages l S1 = Inr S"
    by (auto simp: forEach_append split: sum.splits)
  from snoc.IH [OF S1] have F: "loadFacts L P m c tsImages ls S1" .
  from step obtain st where st: "loadLayer L P m c tsImages l (layerOffset S1) = Inr st"
    and S: "S = \<lparr>layers = (layers S1)(Name l \<mapsto> texObjects st),
                 layerOffset = layerOffset S1 - LayerOffset c,
                 runs = runs S1 @ [(layerOffset S1, placed st)]\<rparr>"
    by (auto simp: layerStep_def split: sum.splits)
  from F have len: "length (runs S1) = length ls" and off: "layerOffset S1 = layerBase c (length ls)"
    by (simp_all add: loadFacts_def)
  have a: "length (runs S) = length (ls @ [l])" using S len by simp
  have b: "layerOffset S = layerBase c (length (ls @ [l]))"
    using S off by (simp add: layerBase_def algebra_simps)
  have c: "\<exists>st'. loadLayer L P m c tsImages ((ls @ [l]) ! i) (layerBase c i) = Inr st' \<and>
                 runs S ! i = (layerBase c i, placed st')" if "i < length (ls @ [l])" for i
  proof (cases "i < length ls")
    case True
    with F obtain st' where "loadLayer L P m c tsImages (ls ! i) (layerBase c i) = Inr st'"
      and "runs S1 ! i = (layerBase c i, placed st')"
      unfolding loadFacts_def by blast
    with True S len show ?thesis by (auto simp: nth_append)
  next
    case False
    with that have "i = length ls" by simp
    with st S len off show ?thesis by (auto simp: nth_append)
  qed
  have d: "layers S n = None" if "n \<notin> Name ` set (ls @ [l])" for n
  proof -
    from that have "n \<notin> Name ` set ls" and "Name l \<noteq> n" by auto
    with F S show ?thesis by (auto simp: loadFacts_def)
  qed
  have e: "\<exists>st'. loadLayer L P m c tsImages ((ls @ [l]) ! i) (layerBase c i) = Inr st' \<and>
                 layers S n = Some (texObjects st')" if "lastNamed (ls @ [l]) n i" for n i
  proof -
    from that [unfolded lastNamed_snoc] show ?thesis
    proof (elim disjE conjE)
      assume "i = length ls" and "Name l = n"
      with st S off show ?thesis by (auto simp: nth_append)
    next
      assume ln: "lastNamed ls n i" and ne: "Name l \<noteq> n"
      from ln have i: "i < length ls" by (simp add: lastNamed_def)
      from F ln obtain st' where "loadLayer L P m c tsImages (ls ! i) (layerBase c i) = Inr st'"
        and "layers S1 n = Some (texObjects st')"
        unfolding loadFacts_def by blast
      with i ne S show ?thesis by (auto simp: nth_append)
    qed
  qed
  show ?case unfolding loadFacts_def using a b c d e by blast
qed

lemma LoadRun_facts:
  "LoadRun L P m c tsImages = Inr S \<Longrightarrow> loadFacts L P m (theConfig c) tsImages (Layers m) S"
  by (simp add: LoadRun_def layers_run)

lemma LoadRun_total:
  assumes "mapOK P m tsImages"
  shows "\<exists>S. LoadRun L P m c tsImages = Inr S"
  unfolding LoadRun_def
proof (rule forEach_total)
  fix l and S :: loadState
  assume "l \<in> set (Layers m)"
  with assms have "\<forall>cell \<in> set (cells m). cellOK P m tsImages l cell" by (simp add: mapOK_def)
  from loadLayer_total [OF this] obtain st
    where "loadLayer L P m (theConfig c) tsImages l (layerOffset S) = Inr st" by blast
  then show "\<exists>S'. layerStep L P m (theConfig c) tsImages l S = Inr S'"
    by (simp add: layerStep_def)
qed

lemma Load_Inr: "Load L P m c tsImages = Inr ls \<longleftrightarrow> (\<exists>S. LoadRun L P m c tsImages = Inr S \<and> ls = layers S)"
  by (cases "LoadRun L P m c tsImages") (auto simp: Load_def)

section \<open>The results of \<open>Load\<close>\<close>







lemma exists_lastNamed: "n \<in> Name ` set ls \<Longrightarrow> \<exists>i. lastNamed ls n i"
proof (induction ls rule: rev_induct)
  case Nil
  then show ?case by simp
next
  case (snoc l ls)
  show ?case
  proof (cases "Name l = n")
    case True
    then have "lastNamed (ls @ [l]) n (length ls)" by (simp add: lastNamed_snoc)
    then show ?thesis ..
  next
    case False
    with snoc.prems have "n \<in> Name ` set ls" by auto
    from snoc.IH [OF this] obtain i where "lastNamed ls n i" ..
    with False have "lastNamed (ls @ [l]) n i" by (simp add: lastNamed_snoc)
    then show ?thesis ..
  qed
qed

lemma loadFacts_dom:
  assumes "loadFacts L P m c tsImages ls S"
  shows "dom (layers S) = Name ` set ls"
proof
  show "dom (layers S) \<subseteq> Name ` set ls"
    using assms unfolding loadFacts_def by (auto simp: dom_def)
next
  show "Name ` set ls \<subseteq> dom (layers S)"
  proof
    fix n
    assume "n \<in> Name ` set ls"
    from exists_lastNamed [OF this] obtain i where "lastNamed ls n i" ..
    with assms obtain st :: layerState where "layers S n = Some (texObjects st)"
      unfolding loadFacts_def by blast
    then show "n \<in> dom (layers S)" by auto
  qed
qed

lemma cellStep_vcount:
  assumes "cellStep L P m c tsImages layer off x y st = Inr st'"
  shows "vcount (texObjects st') k =
           vcount (texObjects st) k + (if placedImage P m tsImages layer (x, y) = Some k then 6 else 0)"
  using cellStep_cases [OF assms] by (auto simp: vcount_def)

lemma cellStep_omit:
  assumes "owner P m layer (x, y) = Some ts" and "tsImages (Base (ImageSource ts)) = None"
  shows "cellStep L P m c tsImages layer off x y st = Inr st"
  using assms by (auto simp: owner_def cellStep_def Let_def split: option.splits)

text \<open>
  C7, as stated, fails: for the example map and no image at all, \<open>Load\<close> returns a
  mapping that has an entry for the layer \<open>ground\<close>.
\<close>

theorem empty_layer_entry_kept:
  "\<not> isl (Load exactLmath specPkg exMap None Map.empty) \<and>
   \<not> Option.is_none (projr (Load exactLmath specPkg exMap None Map.empty) ''ground'')"
  by code_simp

text \<open>
  C7, amended: when every tile of the grid has an owner and no owner's image is
  supplied, \<open>Load\<close> returns without a panic, and the result has one entry for each
  layer name, each an empty mapping of batches.
\<close>

theorem no_valid_tileset:
  assumes "mapOK P m tsImages" and "unsupplied P m tsImages"
  shows "\<exists>ls. Load L P m c tsImages = Inr ls \<and> dom ls = Name ` set (Layers m) \<and>
              (\<forall>n \<in> Name ` set (Layers m). ls n = Some Map.empty)"
proof -
  from LoadRun_total [OF assms(1)] obtain S where S: "LoadRun L P m c tsImages = Inr S" by blast
  note F = LoadRun_facts [OF S]
  have "layers S n = Some Map.empty" if "n \<in> Name ` set (Layers m)" for n
  proof -
    from exists_lastNamed [OF that] obtain i where i: "lastNamed (Layers m) n i" ..
    with F obtain st
      where st: "loadLayer L P m (theConfig c) tsImages (Layers m ! i) (layerBase (theConfig c) i) = Inr st"
        and n: "layers S n = Some (texObjects st)"
      unfolding loadFacts_def by blast
    from i have "Layers m ! i \<in> set (Layers m)" by (simp add: lastNamed_def)
    with assms(2) have none: "\<forall>cell \<in> set (cells m). placedImage P m tsImages (Layers m ! i) cell = None"
      unfolding unsupplied_def by blast
    have "texObjects st k = None" for k
      using loadLayer_batches(3) [OF st, of k] none by (simp add: filter_empty_conv)
    then have "texObjects st = Map.empty" by (rule ext)
    with n show ?thesis by simp
  qed
  with S loadFacts_dom [OF F] show ?thesis by (auto simp: Load_Inr)
qed

theorem no_valid_tileset_witness:
  "mapOK specPkg exMap Map.empty \<and> unsupplied specPkg exMap Map.empty \<and>
   Name ` set (Layers exMap) = {''ground''} \<and>
   (\<exists>ls. Load exactLmath specPkg exMap None Map.empty = Inr ls \<and>
         dom ls = {''ground''} \<and> ls ''ground'' = Some Map.empty)"
proof -
  have a: "mapOK specPkg exMap Map.empty" by code_simp
  have b: "unsupplied specPkg exMap Map.empty" by code_simp
  have n: "Name ` set (Layers exMap) = {''ground''}" by (simp add: exMap_def exLayer_def)
  from no_valid_tileset [OF a b, of exactLmath None] n
  have "\<exists>ls. Load exactLmath specPkg exMap None Map.empty = Inr ls \<and>
         dom ls = {''ground''} \<and> ls ''ground'' = Some Map.empty" by simp
  with a b n show ?thesis by simp
qed

theorem same_name_last_wins:
  assumes "Load L P m c tsImages = Inr ls" and "lastNamed (Layers m) n i"
  shows "\<exists>st. loadLayer L P m (theConfig c) tsImages (Layers m ! i) (layerBase (theConfig c) i) = Inr st \<and>
              ls n = Some (texObjects st)"
proof -
  from assms(1) obtain S where S: "LoadRun L P m c tsImages = Inr S" and ls: "ls = layers S"
    by (auto simp: Load_Inr)
  from LoadRun_facts [OF S] assms(2) ls show ?thesis unfolding loadFacts_def by blast
qed

theorem same_name_last_wins_witness:
  "Load exactLmath specPkg exMap2 None exImages =
     Inr (projr (Load exactLmath specPkg exMap2 None exImages)) \<and>
   lastNamed (Layers exMap2) ''ground'' 1 \<and>
   Name (Layers exMap2 ! 0) = ''ground'' \<and>
   vcount (texObjects (projr (loadLayer exactLmath specPkg exMap2 (theConfig None) exImages
      (Layers exMap2 ! 0) (layerBase (theConfig None) 0)))) ''tiles.png'' = 12 \<and>
   (\<exists>st. loadLayer exactLmath specPkg exMap2 (theConfig None) exImages (Layers exMap2 ! 1)
            (layerBase (theConfig None) 1) = Inr st \<and>
         projr (Load exactLmath specPkg exMap2 None exImages) ''ground'' = Some (texObjects st) \<and>
         vcount (texObjects st) ''tiles.png'' = 6)"
proof -
  have ok: "\<not> isl (Load exactLmath specPkg exMap2 None exImages)" by code_simp
  then have h: "Load exactLmath specPkg exMap2 None exImages =
     Inr (projr (Load exactLmath specPkg exMap2 None exImages))" by simp
  have nm: "Name (Layers exMap2 ! 0) = ''ground''" "Name (Layers exMap2 ! 1) = ''ground''"
    and len: "length (Layers exMap2) = 2"
    by code_simp+
  have l: "lastNamed (Layers exMap2) ''ground'' 1"
    unfolding lastNamed_def using nm len by auto
  have v0: "vcount (texObjects (projr (loadLayer exactLmath specPkg exMap2 (theConfig None) exImages
      (Layers exMap2 ! 0) (layerBase (theConfig None) 0)))) ''tiles.png'' = 12" by code_simp
  have v1: "vcount (texObjects (projr (loadLayer exactLmath specPkg exMap2 (theConfig None) exImages
      (Layers exMap2 ! 1) (layerBase (theConfig None) 1)))) ''tiles.png'' = 6" by code_simp
  from same_name_last_wins [OF h l] obtain st
    where st: "loadLayer exactLmath specPkg exMap2 (theConfig None) exImages (Layers exMap2 ! 1)
            (layerBase (theConfig None) 1) = Inr st"
      and r: "projr (Load exactLmath specPkg exMap2 None exImages) ''ground'' = Some (texObjects st)"
    by blast
  from st v1 have "vcount (texObjects st) ''tiles.png'' = 6" by simp
  with st r h l nm(1) v0 show ?thesis by blast
qed

text \<open>
  C6: at a tile whose owner's image is not supplied the body of the loops leaves
  the state as it is, without a panic. When no cell of the grid makes a helper
  method fail, \<open>Load\<close> returns; the tiles placed in a layer are, in the order of the
  loops, the tiles of the cells whose owner's image is supplied; and in the entry of
  each layer name there is no batch for an image that is not supplied, while the batch
  of an image has six vertices for each cell of that layer whose tile's owner has the
  image.
\<close>

theorem missing_atlas_omitted:
  "(owner P m layer (x, y) = Some ts \<and> tsImages (Base (ImageSource ts)) = None \<longrightarrow>
      cellStep L P m (theConfig c) tsImages layer off x y st = Inr st) \<and>
   (mapOK P m tsImages \<longrightarrow>
      (\<exists>S. LoadRun L P m c tsImages = Inr S \<and> Load L P m c tsImages = Inr (layers S) \<and>
         (\<forall>i < length (Layers m).
            map pCell (snd (runs S ! i)) =
              filter (\<lambda>cell. placedImage P m tsImages (Layers m ! i) cell \<noteq> None) (cells m)) \<and>
         (\<forall>n i. lastNamed (Layers m) n i \<longrightarrow>
            (\<exists>objs. layers S n = Some objs \<and>
               (\<forall>k. (tsImages k = None \<longrightarrow> objs k = None) \<and>
                    vcount objs k =
                      6 * length (filter (\<lambda>cell. placedImage P m tsImages (Layers m ! i) cell = Some k)
                                    (cells m)))))))"
proof (intro conjI impI)
  assume "owner P m layer (x, y) = Some ts \<and> tsImages (Base (ImageSource ts)) = None"
  then show "cellStep L P m (theConfig c) tsImages layer off x y st = Inr st"
    by (simp add: cellStep_omit)
next
  assume ok: "mapOK P m tsImages"
  let ?c = "theConfig c"
  from LoadRun_total [OF ok] obtain S where S: "LoadRun L P m c tsImages = Inr S" by blast
  note F = LoadRun_facts [OF S]
  have order: "map pCell (snd (runs S ! i)) =
              filter (\<lambda>cell. placedImage P m tsImages (Layers m ! i) cell \<noteq> None) (cells m)"
    if "i < length (Layers m)" for i
  proof -
    from F that obtain st
      where st: "loadLayer L P m ?c tsImages (Layers m ! i) (layerBase ?c i) = Inr st"
        and r: "runs S ! i = (layerBase ?c i, placed st)"
      unfolding loadFacts_def by blast
    from loadLayer_batches(2) [OF st] r show ?thesis by simp
  qed
  have batches: "\<exists>objs. layers S n = Some objs \<and>
               (\<forall>k. (tsImages k = None \<longrightarrow> objs k = None) \<and>
                    vcount objs k =
                      6 * length (filter (\<lambda>cell. placedImage P m tsImages (Layers m ! i) cell = Some k)
                                    (cells m)))"
    if "lastNamed (Layers m) n i" for n i
  proof -
    from F that obtain st
      where st: "loadLayer L P m ?c tsImages (Layers m ! i) (layerBase ?c i) = Inr st"
        and n: "layers S n = Some (texObjects st)"
      unfolding loadFacts_def by blast
    from loadLayer_unsupplied [OF st] loadLayer_batches(1) [OF st] n show ?thesis by blast
  qed
  from S have "Load L P m c tsImages = Inr (layers S)" by (simp add: Load_Inr)
  with S order batches
  show "\<exists>S. LoadRun L P m c tsImages = Inr S \<and> Load L P m c tsImages = Inr (layers S) \<and>
         (\<forall>i < length (Layers m).
            map pCell (snd (runs S ! i)) =
              filter (\<lambda>cell. placedImage P m tsImages (Layers m ! i) cell \<noteq> None) (cells m)) \<and>
         (\<forall>n i. lastNamed (Layers m) n i \<longrightarrow>
            (\<exists>objs. layers S n = Some objs \<and>
               (\<forall>k. (tsImages k = None \<longrightarrow> objs k = None) \<and>
                    vcount objs k =
                      6 * length (filter (\<lambda>cell. placedImage P m tsImages (Layers m ! i) cell = Some k)
                                    (cells m)))))"
    by blast
qed

theorem missing_atlas_omitted_witness:
  "owner specPkg exMap3 exLayerC (1, 0) = Some exTileset2 \<and>
   exImages (Base (ImageSource exTileset2)) = None \<and>
   cellStep exactLmath specPkg exMap3 (theConfig None) exImages exLayerC 0 1 0 initLayer = Inr initLayer \<and>
   mapOK specPkg exMap3 exImages \<and>
   (\<exists>S. LoadRun exactLmath specPkg exMap3 None exImages = Inr S \<and>
        Load exactLmath specPkg exMap3 None exImages = Inr (layers S) \<and>
        map pCell (snd (runs S ! 0)) = [(0, 0)] \<and>
        (\<exists>objs. layers S ''ground'' = Some objs \<and> objs ''other.png'' = None \<and>
                vcount objs ''tiles.png'' = 6))"
proof -
  note T = missing_atlas_omitted [where P = specPkg and m = exMap3 and layer = exLayerC
      and x = 1 and y = 0 and ts = exTileset2 and tsImages = exImages and L = exactLmath
      and c = None and off = 0 and st = initLayer]
  have ow: "owner specPkg exMap3 exLayerC (1, 0) = Some exTileset2" by code_simp
  have im: "exImages (Base (ImageSource exTileset2)) = None" by code_simp
  have ot: "exImages ''other.png'' = None" by code_simp
  have ok: "mapOK specPkg exMap3 exImages" by code_simp
  have len: "0 < length (Layers exMap3)" by code_simp
  have f1: "filter (\<lambda>cell. placedImage specPkg exMap3 exImages (Layers exMap3 ! 0) cell \<noteq> None)
              (cells exMap3) = [(0, 0)]" by code_simp
  have f2: "length (filter (\<lambda>cell. placedImage specPkg exMap3 exImages (Layers exMap3 ! 0) cell =
              Some ''tiles.png'') (cells exMap3)) = 1" by code_simp
  have nm: "Name (Layers exMap3 ! 0) = ''ground''" and l1: "length (Layers exMap3) = 1"
    by code_simp+
  have ln: "lastNamed (Layers exMap3) ''ground'' 0"
    unfolding lastNamed_def using nm l1 by auto
  from T [THEN conjunct1] ow im
  have step: "cellStep exactLmath specPkg exMap3 (theConfig None) exImages exLayerC 0 1 0 initLayer =
      Inr initLayer" by simp
  from T [THEN conjunct2] ok obtain S
    where S: "LoadRun exactLmath specPkg exMap3 None exImages = Inr S"
      and Ld: "Load exactLmath specPkg exMap3 None exImages = Inr (layers S)"
      and ord: "\<forall>i < length (Layers exMap3).
            map pCell (snd (runs S ! i)) =
              filter (\<lambda>cell. placedImage specPkg exMap3 exImages (Layers exMap3 ! i) cell \<noteq> None)
                (cells exMap3)"
      and bat: "\<forall>n i. lastNamed (Layers exMap3) n i \<longrightarrow>
            (\<exists>objs. layers S n = Some objs \<and>
               (\<forall>k. (exImages k = None \<longrightarrow> objs k = None) \<and>
                    vcount objs k =
                      6 * length (filter (\<lambda>cell. placedImage specPkg exMap3 exImages
                                             (Layers exMap3 ! i) cell = Some k) (cells exMap3))))"
    by blast
  from ord len f1 have o: "map pCell (snd (runs S ! 0)) = [(0, 0)]" by simp
  from bat ln obtain objs where objs: "layers S ''ground'' = Some objs"
    and k: "\<forall>k. (exImages k = None \<longrightarrow> objs k = None) \<and>
                    vcount objs k =
                      6 * length (filter (\<lambda>cell. placedImage specPkg exMap3 exImages
                                             (Layers exMap3 ! 0) cell = Some k) (cells exMap3))"
    by blast
  from k ot have n: "objs ''other.png'' = None" by blast
  from k f2 have v: "vcount objs ''tiles.png'' = 6" by simp
  have "\<exists>objs. layers S ''ground'' = Some objs \<and> objs ''other.png'' = None \<and>
           vcount objs ''tiles.png'' = 6"
    using objs n v by (intro exI [of _ objs]) simp
  with S Ld o
  have "\<exists>S. LoadRun exactLmath specPkg exMap3 None exImages = Inr S \<and>
        Load exactLmath specPkg exMap3 None exImages = Inr (layers S) \<and>
        map pCell (snd (runs S ! 0)) = [(0, 0)] \<and>
        (\<exists>objs. layers S ''ground'' = Some objs \<and> objs ''other.png'' = None \<and>
                vcount objs ''tiles.png'' = 6)"
    by (intro exI [of _ S]) simp
  with ow im step ok show ?thesis by simp
qed



text \<open>
  C5: every call of \<open>appendCard\<close> appends exactly six vertices and exactly six
  texture coordinates to the mesh, leaving the ones already there in place, so the
  six new coordinates pair one to one with the six new vertices in emission order;
  and a cell whose tile is placed adds exactly six vertices to the batch of the
  tile's image and none to any other batch.
\<close>

theorem appendCard_six:
  "length (Vertices (appendCard msh l r b t d rect tex)) = length (Vertices msh) + 6 \<and>
   length (uvs (appendCard msh l r b t d rect tex)) = length (uvs msh) + 6 \<and>
   take (length (Vertices msh)) (Vertices (appendCard msh l r b t d rect tex)) = Vertices msh \<and>
   take (length (uvs msh)) (uvs (appendCard msh l r b t d rect tex)) = uvs msh \<and>
   (cellStep L P m c tsImages layer off x y st = Inr st' \<and>
    placedImage P m tsImages layer (x, y) = Some k \<longrightarrow>
      vcount (texObjects st') k = vcount (texObjects st) k + 6 \<and>
      (\<forall>k'. k' \<noteq> k \<longrightarrow> vcount (texObjects st') k' = vcount (texObjects st) k'))"
proof -
  have "vcount (texObjects st') k = vcount (texObjects st) k + 6 \<and>
      (\<forall>k'. k' \<noteq> k \<longrightarrow> vcount (texObjects st') k' = vcount (texObjects st) k')"
    if "cellStep L P m c tsImages layer off x y st = Inr st'"
      and "placedImage P m tsImages layer (x, y) = Some k"
    using cellStep_vcount [OF that(1)] that(2) by simp
  then show ?thesis
    by (simp add: Vertices_appendCard uvs_appendCard split: prod.splits)
qed

theorem appendCard_six_witness:
  "cellStep exactLmath specPkg exMap defaultConfig exImages exLayer 0 0 0 initLayer =
     Inr (projr (cellStep exactLmath specPkg exMap defaultConfig exImages exLayer 0 0 0 initLayer)) \<and>
   placedImage specPkg exMap exImages exLayer (0, 0) = Some ''tiles.png'' \<and>
   vcount (texObjects initLayer) ''tiles.png'' = 0 \<and>
   vcount (texObjects (projr (cellStep exactLmath specPkg exMap defaultConfig exImages exLayer 0 0 0
      initLayer))) ''tiles.png'' = 6"
proof -
  have ok: "\<not> isl (cellStep exactLmath specPkg exMap defaultConfig exImages exLayer 0 0 0 initLayer)"
    by code_simp
  then have h: "cellStep exactLmath specPkg exMap defaultConfig exImages exLayer 0 0 0 initLayer =
     Inr (projr (cellStep exactLmath specPkg exMap defaultConfig exImages exLayer 0 0 0 initLayer))"
    by simp
  have pi: "placedImage specPkg exMap exImages exLayer (0, 0) = Some ''tiles.png''" by code_simp
  have z: "vcount (texObjects initLayer) ''tiles.png'' = 0" by code_simp
  note T = appendCard_six [where L = exactLmath and P = specPkg and m = exMap and c = defaultConfig
      and tsImages = exImages and layer = exLayer and off = 0 and x = 0 and y = 0 and st = initLayer
      and st' = "projr (cellStep exactLmath specPkg exMap defaultConfig exImages exLayer 0 0 0 initLayer)"
      and k = "''tiles.png''",
      THEN conjunct2, THEN conjunct2, THEN conjunct2, THEN conjunct2]
  from T h pi z
  have "vcount (texObjects (projr (cellStep exactLmath specPkg exMap defaultConfig exImages exLayer 0 0 0
      initLayer))) ''tiles.png'' = 6" by simp
  with h pi z show ?thesis by simp
qed

end
